theory Spec2Isabelle
  imports Complex_Main "HOL-Library.Word"
begin

section \<open>Common types\<close>

text \<open>
  A Go \<^verbatim>\<open>time.Time\<close> is modelled as the number of nanoseconds since the Unix epoch,
  a \<^verbatim>\<open>time.Duration\<close> as a number of nanoseconds. \<^verbatim>\<open>t.After(u)\<close> is \<open>u < t\<close>,
  \<^verbatim>\<open>t.Add(d)\<close> is \<open>t + d\<close>, \<^verbatim>\<open>t.Unix()\<close> is the floor of \<open>t / 10^9\<close>.
  All clock readings taken during one call are modelled as one instant \<open>now\<close>, which the
  caller of the model passes in.

  A Go \<^verbatim>\<open>float64\<close> is modelled as a real number: rounding, infinities and NaN are not
  modelled. A Go \<^verbatim>\<open>string\<close> is a byte string, that is a \<open>char list\<close>.
\<close>

type_synonym time = int
type_synonym float64 = real

definition hour :: int where
  "hour = 3600 * 1000000000"

definition time_Unix :: "time \<Rightarrow> 64 word" where
  "time_Unix t = word_of_int (t div 1000000000)"

text \<open>
  Every call to the key-value store can fail for reasons outside the program (network,
  throttling, permissions). The outcome of the calls made during one operation is given by
  a record of flags, one per kind of call; a flag that is set makes the call return an
  error and leave the table as it is.
\<close>

record ddb_faults =
  get_item_err :: bool
  unmarshal_err :: bool
  marshal_err :: bool
  put_item_err :: bool
  update_item_err :: bool
  delete_item_err :: bool

definition no_faults :: ddb_faults where
  "no_faults = \<lparr>get_item_err = False, unmarshal_err = False, marshal_err = False,
     put_item_err = False, update_item_err = False, delete_item_err = False\<rparr>"

section \<open>Spend Ledger (package llm)\<close>

record UserSpendRecord =
  UserID :: string
  Date :: string
  LLMRequests :: "64 word"
  LLMCost :: float64
  DailyLimit :: float64
  CreatedAt :: string
  UpdatedAt :: string
  TTL :: "64 word"

record CostControlResult =
  Allowed :: bool
  Remaining :: float64
  CurrentCost :: float64
  res_DailyLimit :: float64
  Reason :: string

text \<open>
  The table \<^verbatim>\<open>therma-user-spend\<close> is keyed by \<open>(user_id, date)\<close>. The two time formats
  come from the Go standard library and are parameters of the model:
  \<open>format_date\<close> is \<^verbatim>\<open>Format("2006-01-02")\<close> and \<open>format_rfc3339\<close> is
  \<^verbatim>\<open>Format(time.RFC3339)\<close>.
\<close>

type_synonym spend_table = "string \<times> string \<rightharpoonup> UserSpendRecord"

record time_lib =
  format_date :: "time \<Rightarrow> string"
  format_rfc3339 :: "time \<Rightarrow> string"

datatype llm_error =
    FailedToGetItem
  | FailedToUnmarshalRecord
  | FailedToMarshalRecord
  | FailedToPutItem
  | FailedToGetUserSpendRecord llm_error
  | FailedToSaveUserSpendRecord llm_error

definition getUserSpendRecord ::
  "ddb_faults \<Rightarrow> string \<Rightarrow> string \<Rightarrow> spend_table \<Rightarrow> llm_error + UserSpendRecord option" where
  "getUserSpendRecord f userID date tbl =
     (if get_item_err f then Inl FailedToGetItem
      else case tbl (userID, date) of
             None \<Rightarrow> Inr None
           | Some r \<Rightarrow> if unmarshal_err f then Inl FailedToUnmarshalRecord else Inr (Some r))"

definition saveUserSpendRecord ::
  "ddb_faults \<Rightarrow> UserSpendRecord \<Rightarrow> spend_table \<Rightarrow> llm_error option \<times> spend_table" where
  "saveUserSpendRecord f record tbl =
     (if marshal_err f then (Some FailedToMarshalRecord, tbl)
      else if put_item_err f then (Some FailedToPutItem, tbl)
      else (None, tbl((UserID record, Date record) \<mapsto> record)))"

definition getDefaultDailyLimit :: "string \<Rightarrow> float64" where
  "getDefaultDailyLimit userID = 5.0"

text \<open>The record both operations build when the user has none for today.\<close>

definition newUserSpendRecord :: "time_lib \<Rightarrow> time \<Rightarrow> string \<Rightarrow> string \<Rightarrow> UserSpendRecord" where
  "newUserSpendRecord tm now userID today =
     \<lparr>UserID = userID, Date = today, LLMRequests = 0, LLMCost = 0.0,
      DailyLimit = getDefaultDailyLimit userID,
      CreatedAt = format_rfc3339 tm now, UpdatedAt = format_rfc3339 tm now, TTL = 0\<rparr>"

text \<open>
  The text of \<open>Reason\<close> is built by \<^verbatim>\<open>fmt.Sprintf\<close> with \<^verbatim>\<open>%.4f\<close>; the rendering of the
  three numbers is a parameter \<open>fmt4\<close> of the model.
\<close>

definition limit_reason :: "(float64 \<Rightarrow> string) \<Rightarrow> float64 \<Rightarrow> float64 \<Rightarrow> float64 \<Rightarrow> string" where
  "limit_reason fmt4 cur req lmt =
     ''Daily limit exceeded. Current: $'' @ fmt4 cur @ '', Request: $'' @ fmt4 req
       @ '', Limit: $'' @ fmt4 lmt"

definition CheckUserSpendLimit ::
  "time_lib \<Rightarrow> (float64 \<Rightarrow> string) \<Rightarrow> ddb_faults \<Rightarrow> time \<Rightarrow> string \<Rightarrow> float64 \<Rightarrow> spend_table
     \<Rightarrow> (llm_error + CostControlResult) \<times> spend_table" where
  "CheckUserSpendLimit tm fmt4 f now userID estimatedCost tbl =
     (let today = format_date tm now in
      case getUserSpendRecord f userID today tbl of
        Inl err \<Rightarrow> (Inl (FailedToGetUserSpendRecord err), tbl)
      | Inr found \<Rightarrow>
          let record = (case found of None \<Rightarrow> newUserSpendRecord tm now userID today
                                     | Some r \<Rightarrow> r);
              newTotalCost = LLMCost record + estimatedCost;
              result = \<lparr>Allowed = False, Remaining = DailyLimit record - LLMCost record,
                        CurrentCost = LLMCost record, res_DailyLimit = DailyLimit record,
                        Reason = []\<rparr>
          in if newTotalCost > DailyLimit record
             then (Inr (result\<lparr>Allowed := False,
                           Reason := limit_reason fmt4 (LLMCost record) estimatedCost
                                       (DailyLimit record)\<rparr>), tbl)
             else (Inr (result\<lparr>Allowed := True\<rparr>), tbl))"

definition RecordLLMRequest ::
  "time_lib \<Rightarrow> ddb_faults \<Rightarrow> time \<Rightarrow> string \<Rightarrow> float64 \<Rightarrow> spend_table
     \<Rightarrow> llm_error option \<times> spend_table" where
  "RecordLLMRequest tm f now userID cost tbl =
     (let today = format_date tm now in
      case getUserSpendRecord f userID today tbl of
        Inl err \<Rightarrow> (Some (FailedToGetUserSpendRecord err), tbl)
      | Inr found \<Rightarrow>
          let record = (case found of None \<Rightarrow> newUserSpendRecord tm now userID today
                                     | Some r \<Rightarrow> r);
              record = record\<lparr>LLMRequests := LLMRequests record + 1\<rparr>;
              record = record\<lparr>LLMCost := LLMCost record + cost\<rparr>;
              record = record\<lparr>UpdatedAt := format_rfc3339 tm now\<rparr>;
              record = record\<lparr>TTL := time_Unix (now + 7 * 24 * hour)\<rparr>
          in (case saveUserSpendRecord f record tbl of
                (Some err, tbl') \<Rightarrow> (Some (FailedToSaveUserSpendRecord err), tbl')
              | (None, tbl') \<Rightarrow> (None, tbl')))"

text \<open>
  The accumulated cost the ledger holds for a user on a day; a user with no record for the
  day has spent nothing, as both operations assume.
\<close>

definition accumulatedCost :: "spend_table \<Rightarrow> string \<Rightarrow> string \<Rightarrow> float64" where
  "accumulatedCost tbl userID date =
     (case tbl (userID, date) of None \<Rightarrow> 0 | Some r \<Rightarrow> LLMCost r)"

text \<open>
  The price table of \<open>EstimateLLMCost\<close>: input and output cost per 1000 tokens. Indexing a
  Go map with a key it does not hold gives the zero value.
\<close>

definition costs :: "string \<rightharpoonup> float64 \<times> float64" where
  "costs = [''anthropic.claude-3-sonnet-20240229-v1:0'' \<mapsto> (0.003, 0.015),
            ''anthropic.claude-3-haiku-20240307-v1:0'' \<mapsto> (0.00025, 0.00125),
            ''anthropic.claude-3-opus-20240229-v1:0'' \<mapsto> (0.015, 0.075)]"

definition costs_at :: "string \<Rightarrow> float64 \<times> float64" where
  "costs_at model = (case costs model of Some c \<Rightarrow> c | None \<Rightarrow> (0, 0))"

definition EstimateLLMCost :: "int \<Rightarrow> int \<Rightarrow> string \<Rightarrow> float64" where
  "EstimateLLMCost inputTokens outputTokens model =
     (let modelCosts = (if costs model \<noteq> None then costs_at model
                        else costs_at ''anthropic.claude-3-sonnet-20240229-v1:0'');
          inputCost = (real_of_int inputTokens / 1000.0) * fst modelCosts;
          outputCost = (real_of_int outputTokens / 1000.0) * snd modelCosts
      in inputCost + outputCost)"

section \<open>Encryption Boundary (package encryption)\<close>

text \<open>
  The encryption service and the base64 codec are outside the repository and are
  parameters of the model. A call to the service is an external effect: each one is
  appended to a log, and the answer of the service may depend on the calls made so far
  (real ciphertexts are randomised, and the service may be unavailable at any time).
  \<open>None\<close> is an error returned by the service.
\<close>

datatype kms_call =
    EncryptCall string string "string \<rightharpoonup> string"
  | DecryptCall string "string \<rightharpoonup> string"

record kms_service =
  kms_Encrypt :: "kms_call list \<Rightarrow> string \<Rightarrow> string \<Rightarrow> (string \<rightharpoonup> string) \<Rightarrow> string option"
  kms_Decrypt :: "kms_call list \<Rightarrow> string \<Rightarrow> (string \<rightharpoonup> string) \<Rightarrow> string option"
  base64_EncodeToString :: "string \<Rightarrow> string"
  base64_DecodeString :: "string \<Rightarrow> string option"

record KMSClient =
  client :: kms_service
  keyID :: string

datatype enc_error =
    FailedToEncryptPHI
  | FailedToDecodeCiphertext
  | FailedToDecryptPHI
  | FailedToEncryptArrayElement nat enc_error
  | FailedToDecryptArrayElement nat enc_error

definition phi_context :: "string \<rightharpoonup> string" where
  "phi_context = [''Purpose'' \<mapsto> ''PHI-Encryption'', ''Service'' \<mapsto> ''Therma-Backend'']"

definition EncryptPHI ::
  "KMSClient \<Rightarrow> string \<Rightarrow> kms_call list \<Rightarrow> (enc_error + string) \<times> kms_call list" where
  "EncryptPHI k plaintext calls =
     (if plaintext = [] then (Inr [], calls)
      else case kms_Encrypt (client k) calls (keyID k) plaintext phi_context of
             None \<Rightarrow> (Inl FailedToEncryptPHI,
                       calls @ [EncryptCall (keyID k) plaintext phi_context])
           | Some blob \<Rightarrow> (Inr (base64_EncodeToString (client k) blob),
                            calls @ [EncryptCall (keyID k) plaintext phi_context]))"

definition DecryptPHI ::
  "KMSClient \<Rightarrow> string \<Rightarrow> kms_call list \<Rightarrow> (enc_error + string) \<times> kms_call list" where
  "DecryptPHI k ciphertext calls =
     (if ciphertext = [] then (Inr [], calls)
      else case base64_DecodeString (client k) ciphertext of
             None \<Rightarrow> (Inl FailedToDecodeCiphertext, calls)
           | Some blob \<Rightarrow>
               (case kms_Decrypt (client k) calls blob phi_context of
                  None \<Rightarrow> (Inl FailedToDecryptPHI, calls @ [DecryptCall blob phi_context])
                | Some plaintext \<Rightarrow> (Inr plaintext, calls @ [DecryptCall blob phi_context])))"

text \<open>
  The array variants loop over the elements in order and stop at the first error; \<open>i\<close> is
  the index of the element at the head of the list.
\<close>

fun EncryptPHIArray_from ::
  "KMSClient \<Rightarrow> nat \<Rightarrow> string list \<Rightarrow> kms_call list
     \<Rightarrow> (enc_error + string list) \<times> kms_call list" where
  "EncryptPHIArray_from k i [] calls = (Inr [], calls)"
| "EncryptPHIArray_from k i (plaintext # rest) calls =
     (case EncryptPHI k plaintext calls of
        (Inl err, calls') \<Rightarrow> (Inl (FailedToEncryptArrayElement i err), calls')
      | (Inr enc, calls') \<Rightarrow>
          (case EncryptPHIArray_from k (Suc i) rest calls' of
             (Inl err, calls'') \<Rightarrow> (Inl err, calls'')
           | (Inr encrypted, calls'') \<Rightarrow> (Inr (enc # encrypted), calls'')))"

definition EncryptPHIArray ::
  "KMSClient \<Rightarrow> string list \<Rightarrow> kms_call list \<Rightarrow> (enc_error + string list) \<times> kms_call list" where
  "EncryptPHIArray k plaintexts calls =
     (if length plaintexts = 0 then (Inr [], calls)
      else EncryptPHIArray_from k 0 plaintexts calls)"

fun DecryptPHIArray_from ::
  "KMSClient \<Rightarrow> nat \<Rightarrow> string list \<Rightarrow> kms_call list
     \<Rightarrow> (enc_error + string list) \<times> kms_call list" where
  "DecryptPHIArray_from k i [] calls = (Inr [], calls)"
| "DecryptPHIArray_from k i (ciphertext # rest) calls =
     (case DecryptPHI k ciphertext calls of
        (Inl err, calls') \<Rightarrow> (Inl (FailedToDecryptArrayElement i err), calls')
      | (Inr dec, calls') \<Rightarrow>
          (case DecryptPHIArray_from k (Suc i) rest calls' of
             (Inl err, calls'') \<Rightarrow> (Inl err, calls'')
           | (Inr decrypted, calls'') \<Rightarrow> (Inr (dec # decrypted), calls'')))"

definition DecryptPHIArray ::
  "KMSClient \<Rightarrow> string list \<Rightarrow> kms_call list \<Rightarrow> (enc_error + string list) \<times> kms_call list" where
  "DecryptPHIArray k ciphertexts calls =
     (if length ciphertexts = 0 then (Inr [], calls)
      else DecryptPHIArray_from k 0 ciphertexts calls)"

text \<open>
  What the round-trip property asks of the external parts: a ciphertext the service
  returns is not empty and decrypts, under the same context and whatever calls were made
  in between, to the plaintext it was made from; base64 decoding inverts encoding, and
  only the empty byte string encodes to the empty text.
\<close>

definition faithful_kms :: "kms_service \<Rightarrow> bool" where
  "faithful_kms svc \<longleftrightarrow>
     (\<forall>h h' key p ctx c. kms_Encrypt svc h key p ctx = Some c \<longrightarrow>
          c \<noteq> [] \<and> kms_Decrypt svc h' c ctx = Some p)
     \<and> (\<forall>b. base64_DecodeString svc (base64_EncodeToString svc b) = Some b)
     \<and> (\<forall>b. base64_EncodeToString svc b = [] \<longrightarrow> b = [])"

section \<open>The state of the external collaborators\<close>

record IdempotencyRecord =
  Key :: string
  idem_UserID :: string
  RequestHash :: string
  Response :: string
  Status :: string
  idem_CreatedAt :: time
  ExpiresAt :: time
  idem_TTL :: "64 word"

text \<open>The table \<^verbatim>\<open>therma-idempotency\<close> is keyed by the attribute \<open>key\<close>.\<close>

type_synonym idem_table = "string \<rightharpoonup> IdempotencyRecord"

text \<open>
  Everything a request can read or change outside its own process: the two tables and the
  log of calls made to the encryption service.
\<close>

record world =
  idem :: idem_table
  spend :: spend_table
  kms_calls :: "kms_call list"

section \<open>Request Orchestrator (lambda/journal-entry)\<close>

record JournalEntryRequest =
  Content :: string
  Mood :: string
  Tags :: "string list"
  IdempotencyKey :: string

record JournalEntryResponse =
  ID :: string
  resp_UserID :: string
  resp_Content :: string
  resp_Mood :: string
  resp_Tags :: "string list"
  resp_CreatedAt :: time
  resp_UpdatedAt :: time
  Encrypted :: bool

datatype journal_error =
    FailedToCheckCostLimits llm_error
  | FailedToEncryptContent enc_error
  | FailedToEncryptMood enc_error
  | FailedToEncryptTags enc_error

text \<open>\<^verbatim>\<open>fmt.Sprintf("%d", n)\<close>: the decimal digits of an integer.\<close>

fun dec_digits :: "nat \<Rightarrow> string" where
  "dec_digits n =
     (if n < 10 then [char_of (48 + n)]
      else dec_digits (n div 10) @ [char_of (48 + n mod 10)])"

declare dec_digits.simps [simp del]

definition fmt_d :: "int \<Rightarrow> string" where
  "fmt_d i = (if i < 0 then CHR ''-'' # dec_digits (nat (- i)) else dec_digits (nat i))"

definition generateID :: "time \<Rightarrow> string" where
  "generateID now = ''entry_'' @ fmt_d now"

definition handleCostLimitExceeded ::
  "time \<Rightarrow> JournalEntryRequest \<Rightarrow> CostControlResult \<Rightarrow> journal_error + JournalEntryResponse" where
  "handleCostLimitExceeded now req costCheck =
     Inr \<lparr>ID = generateID now, resp_UserID = ''user_id'', resp_Content = Content req,
          resp_Mood = Mood req, resp_Tags = Tags req, resp_CreatedAt = now,
          resp_UpdatedAt = now, Encrypted = False\<rparr>"

text \<open>
  \<open>fc\<close> gives the outcome of the store calls of the admission check, \<open>fr\<close> of those of
  the cost recording. An error of the cost recording is only printed, and the entry is
  returned all the same.
\<close>

definition processJournalEntry ::
  "time_lib \<Rightarrow> (float64 \<Rightarrow> string) \<Rightarrow> ddb_faults \<Rightarrow> ddb_faults \<Rightarrow> time \<Rightarrow> string
     \<Rightarrow> JournalEntryRequest \<Rightarrow> KMSClient \<Rightarrow> world
     \<Rightarrow> (journal_error + JournalEntryResponse) \<times> world" where
  "processJournalEntry tm fmt fc fr now userID req kmsService w =
     (let estimatedCost = EstimateLLMCost (int (length (Content req))) 100
                            ''anthropic.claude-3-sonnet-20240229-v1:0''
      in case CheckUserSpendLimit tm fmt fc now userID estimatedCost (spend w) of
           (Inl err, sp) \<Rightarrow> (Inl (FailedToCheckCostLimits err), w\<lparr>spend := sp\<rparr>)
         | (Inr costCheck, sp) \<Rightarrow>
             if \<not> Allowed costCheck
             then (handleCostLimitExceeded now req costCheck, w\<lparr>spend := sp\<rparr>)
             else
               (case EncryptPHI kmsService (Content req) (kms_calls w) of
                  (Inl err, c1) \<Rightarrow>
                    (Inl (FailedToEncryptContent err), w\<lparr>spend := sp, kms_calls := c1\<rparr>)
                | (Inr encryptedContent, c1) \<Rightarrow>
               (case EncryptPHI kmsService (Mood req) c1 of
                  (Inl err, c2) \<Rightarrow>
                    (Inl (FailedToEncryptMood err), w\<lparr>spend := sp, kms_calls := c2\<rparr>)
                | (Inr encryptedMood, c2) \<Rightarrow>
               (case EncryptPHIArray kmsService (Tags req) c2 of
                  (Inl err, c3) \<Rightarrow>
                    (Inl (FailedToEncryptTags err), w\<lparr>spend := sp, kms_calls := c3\<rparr>)
                | (Inr encryptedTags, c3) \<Rightarrow>
                    (Inr \<lparr>ID = generateID now, resp_UserID = userID,
                          resp_Content = encryptedContent, resp_Mood = encryptedMood,
                          resp_Tags = encryptedTags, resp_CreatedAt = now,
                          resp_UpdatedAt = now, Encrypted = True\<rparr>,
                     w\<lparr>spend := snd (RecordLLMRequest tm fr now userID estimatedCost sp),
                       kms_calls := c3\<rparr>)))))"

section \<open>Idempotency Coordinator (package idempotency)\<close>

text \<open>
  The hash (\<^verbatim>\<open>hex.EncodeToString\<close> of \<^verbatim>\<open>sha256.Sum256\<close>), the JSON codec and the text of
  an error (\<^verbatim>\<open>%v\<close>) come from the standard library and are parameters of the model.
  \<open>'v\<close> is the type of the values a handler returns, \<open>'e\<close> the type of its errors.
\<close>

record ('v, 'e) idem_lib =
  sha256_hex :: "string \<Rightarrow> string"
  json_Marshal :: "'v \<Rightarrow> string option"
  json_Unmarshal :: "string \<Rightarrow> 'v option"
  error_text :: "'e \<Rightarrow> string"

datatype store_error =
    GetItemError
  | UnmarshalRecordError
  | MarshalRecordError
  | KeyAlreadyExists
  | PutItemError
  | UpdateItemError
  | DeleteItemError

datatype 'e idem_error =
    FailedToCheckIdempotency store_error
  | FailedToUnmarshalCachedResponse
  | RequestAlreadyBeingProcessed
  | IdempotencyKeyConflict
  | FailedToStoreIdempotencyRecord store_error
  | HandlerError 'e
  | FailedToMarshalResponse

definition GenerateIdempotencyKey :: "('v, 'e) idem_lib \<Rightarrow> string \<Rightarrow> string \<Rightarrow> string \<Rightarrow> string" where
  "GenerateIdempotencyKey lib userID endpoint requestBody =
     sha256_hex lib (userID @ '':'' @ endpoint @ '':'' @ requestBody)"

definition GenerateRequestHash :: "('v, 'e) idem_lib \<Rightarrow> string \<Rightarrow> string" where
  "GenerateRequestHash lib requestBody = sha256_hex lib requestBody"

definition DeleteIdempotencyRecord ::
  "ddb_faults \<Rightarrow> string \<Rightarrow> idem_table \<Rightarrow> store_error option \<times> idem_table" where
  "DeleteIdempotencyRecord f key tbl =
     (if delete_item_err f then (Some DeleteItemError, tbl) else (None, tbl(key := None)))"

text \<open>
  The first half of \<open>CheckIdempotency\<close>: the read of the item and its decoding. The
  second half looks at the expiry and deletes an expired record; the error of the delete is
  dropped, as in the source.
\<close>

definition get_idempotency_item ::
  "ddb_faults \<Rightarrow> string \<Rightarrow> idem_table \<Rightarrow> store_error + IdempotencyRecord option" where
  "get_idempotency_item f key tbl =
     (if get_item_err f then Inl GetItemError
      else case tbl key of
             None \<Rightarrow> Inr None
           | Some record \<Rightarrow> if unmarshal_err f then Inl UnmarshalRecordError
                            else Inr (Some record))"

definition CheckIdempotency ::
  "ddb_faults \<Rightarrow> time \<Rightarrow> string \<Rightarrow> idem_table
     \<Rightarrow> (store_error + IdempotencyRecord option) \<times> idem_table" where
  "CheckIdempotency f now key tbl =
     (case get_idempotency_item f key tbl of
        Inl err \<Rightarrow> (Inl err, tbl)
      | Inr None \<Rightarrow> (Inr None, tbl)
      | Inr (Some record) \<Rightarrow>
          if now > ExpiresAt record
          then (Inr None, snd (DeleteIdempotencyRecord f key tbl))
          else (Inr (Some record), tbl))"

text \<open>
  \<open>PutItem\<close> with the condition \<^verbatim>\<open>attribute_not_exists(#key)\<close>: the write is refused when
  the table holds an item under the key of the new one.
\<close>

definition StoreIdempotencyRecord ::
  "ddb_faults \<Rightarrow> time \<Rightarrow> IdempotencyRecord \<Rightarrow> idem_table \<Rightarrow> store_error option \<times> idem_table" where
  "StoreIdempotencyRecord f now record tbl =
     (let record = record\<lparr>idem_TTL := time_Unix (now + 24 * hour)\<rparr>
      in if marshal_err f then (Some MarshalRecordError, tbl)
         else if put_item_err f then (Some PutItemError, tbl)
         else if tbl (Key record) \<noteq> None then (Some KeyAlreadyExists, tbl)
         else (None, tbl(Key record \<mapsto> record)))"

text \<open>
  \<open>UpdateItem\<close> carries no condition, so on a key that is not in the table it creates an
  item with the key and the attributes it sets; read back, the other fields of such an
  item have Go's zero values. The attribute \<^verbatim>\<open>updated_at\<close> it also sets is not a field of
  \<open>IdempotencyRecord\<close> and is never read.
\<close>

definition zero_time :: time where
  "zero_time = - 62135596800 * 1000000000"

definition UpdateIdempotencyRecord ::
  "ddb_faults \<Rightarrow> string \<Rightarrow> string \<Rightarrow> string \<Rightarrow> idem_table \<Rightarrow> store_error option \<times> idem_table" where
  "UpdateIdempotencyRecord f key response status tbl =
     (if update_item_err f then (Some UpdateItemError, tbl)
      else (None, tbl(key \<mapsto>
              (case tbl key of
                 Some record \<Rightarrow> record\<lparr>Response := response, Status := status\<rparr>
               | None \<Rightarrow> \<lparr>Key = key, idem_UserID = [], RequestHash = [], Response = response,
                           Status = status, idem_CreatedAt = zero_time,
                           ExpiresAt = zero_time, idem_TTL = 0\<rparr>))))"

text \<open>
  \<open>ProcessIdempotentRequest\<close>, in three parts. \<open>lookup_outcome\<close> is the dispatch on the
  record the lookup returned: \<open>Some\<close> is the value the call returns at once, \<open>None\<close>
  means that it goes on to the insert. \<open>execute_new_request\<close> is the rest of the
  function: the conditional insert of the pending record, the handler, and the update of
  the record. The handler is any function of the state of the world.
\<close>

definition lookup_outcome ::
  "('v, 'e) idem_lib \<Rightarrow> string \<Rightarrow> IdempotencyRecord option \<Rightarrow> ('e idem_error + 'v) option" where
  "lookup_outcome lib requestHash existingRecord =
     (case existingRecord of
        None \<Rightarrow> None
      | Some r \<Rightarrow>
          if RequestHash r = requestHash then
            (if Status r = ''completed'' then
               (case json_Unmarshal lib (Response r) of
                  None \<Rightarrow> Some (Inl FailedToUnmarshalCachedResponse)
                | Some response \<Rightarrow> Some (Inr response))
             else if Status r = ''pending'' then Some (Inl RequestAlreadyBeingProcessed)
             else None)
          else Some (Inl IdempotencyKeyConflict))"

definition finish_request ::
  "('v, 'e) idem_lib \<Rightarrow> ddb_faults \<Rightarrow> string \<Rightarrow> ('e + 'v) \<Rightarrow> idem_table
     \<Rightarrow> ('e idem_error + 'v) \<times> idem_table" where
  "finish_request lib f key outcome tbl =
     (case outcome of
        Inl err \<Rightarrow>
          (Inl (HandlerError err),
           snd (UpdateIdempotencyRecord f key (''error: '' @ error_text lib err) ''failed'' tbl))
      | Inr response \<Rightarrow>
          (case json_Marshal lib response of
             None \<Rightarrow>
               (Inl FailedToMarshalResponse,
                snd (UpdateIdempotencyRecord f key ''error: failed to marshal response''
                       ''failed'' tbl))
           | Some responseJSON \<Rightarrow>
               (Inr response,
                snd (UpdateIdempotencyRecord f key responseJSON ''completed'' tbl))))"

text \<open>The record built for a request seen for the first time.\<close>

definition new_pending_record :: "time \<Rightarrow> string \<Rightarrow> string \<Rightarrow> string \<Rightarrow> IdempotencyRecord" where
  "new_pending_record now key userID requestHash =
     \<lparr>Key = key, idem_UserID = userID, RequestHash = requestHash, Response = [],
      Status = ''pending'', idem_CreatedAt = now, ExpiresAt = now + 24 * hour, idem_TTL = 0\<rparr>"

definition execute_new_request ::
  "('v, 'e) idem_lib \<Rightarrow> ddb_faults \<Rightarrow> time \<Rightarrow> string \<Rightarrow> string \<Rightarrow> string
     \<Rightarrow> (world \<Rightarrow> ('e + 'v) \<times> world) \<Rightarrow> world \<Rightarrow> ('e idem_error + 'v) \<times> world" where
  "execute_new_request lib f now key userID requestHash handler w =
     (let record = new_pending_record now key userID requestHash
      in case StoreIdempotencyRecord f now record (idem w) of
           (Some err, tbl) \<Rightarrow> (Inl (FailedToStoreIdempotencyRecord err), w\<lparr>idem := tbl\<rparr>)
         | (None, tbl) \<Rightarrow>
             (case handler (w\<lparr>idem := tbl\<rparr>) of
                (outcome, w') \<Rightarrow>
                  (case finish_request lib f key outcome (idem w') of
                     (result, tbl') \<Rightarrow> (result, w'\<lparr>idem := tbl'\<rparr>))))"

definition ProcessIdempotentRequest ::
  "('v, 'e) idem_lib \<Rightarrow> ddb_faults \<Rightarrow> time \<Rightarrow> string \<Rightarrow> string \<Rightarrow> string
     \<Rightarrow> (world \<Rightarrow> ('e + 'v) \<times> world) \<Rightarrow> world \<Rightarrow> ('e idem_error + 'v) \<times> world" where
  "ProcessIdempotentRequest lib f now userID endpoint requestBody handler w =
     (let key = GenerateIdempotencyKey lib userID endpoint requestBody;
          requestHash = GenerateRequestHash lib requestBody
      in case CheckIdempotency f now key (idem w) of
           (Inl err, tbl) \<Rightarrow> (Inl (FailedToCheckIdempotency err), w\<lparr>idem := tbl\<rparr>)
         | (Inr existingRecord, tbl) \<Rightarrow>
             (case lookup_outcome lib requestHash existingRecord of
                Some result \<Rightarrow> (result, w\<lparr>idem := tbl\<rparr>)
              | None \<Rightarrow>
                  execute_new_request lib f now key userID requestHash handler
                    (w\<lparr>idem := tbl\<rparr>)))"

section \<open>Concurrent invocations of ProcessIdempotentRequest\<close>

text \<open>
  Invocations run in separate processes and share nothing but the store. Each call to the
  store is atomic, and between two calls of one invocation any number of calls of the
  others may take place. An invocation of \<open>ProcessIdempotentRequest\<close> is at one of these
  points: before the \<open>GetItem\<close> of \<open>CheckIdempotency\<close>; before the \<open>DeleteItem\<close> of
  \<open>CheckIdempotency\<close>, having read an expired record; before the conditional
  \<open>PutItem\<close> of \<open>StoreIdempotencyRecord\<close>; before the call of the handler; before the
  \<open>UpdateItem\<close> that records the outcome of the handler; returned.
\<close>

datatype ('v, 'e) invocation =
    AtGetItem
  | AtDeleteItem
  | AtPutItem
  | AtHandler
  | AtUpdateItem "'e + 'v"
  | Returned "'e idem_error + 'v"

text \<open>
  The state of \<open>n\<close> invocations on the same user, operation and body: the shared world,
  the point each invocation is at, and the invocations that have run the handler, in the
  order in which they did.
\<close>

record ('v, 'e) system =
  shared :: world
  invocations :: "('v, 'e) invocation list"
  executed :: "nat list"

definition initial_system :: "world \<Rightarrow> nat \<Rightarrow> ('v, 'e) system" where
  "initial_system w n = \<lparr>shared = w, invocations = replicate n AtGetItem, executed = []\<rparr>"

text \<open>
  One entry \<open>(i, now, f)\<close> of a schedule lets invocation \<open>i\<close> take its next step at
  time \<open>now\<close>, the store answering as \<open>f\<close> says. The steps are the segments of
  \<open>ProcessIdempotentRequest\<close> and \<open>CheckIdempotency\<close> between two store calls, made of
  the same functions.
\<close>

definition step ::
  "('v, 'e) idem_lib \<Rightarrow> string \<Rightarrow> string \<Rightarrow> string \<Rightarrow> (world \<Rightarrow> ('e + 'v) \<times> world)
     \<Rightarrow> nat \<times> time \<times> ddb_faults \<Rightarrow> ('v, 'e) system \<Rightarrow> ('v, 'e) system" where
  "step lib userID endpoint requestBody handler entry s =
     (case entry of (i, now, f) \<Rightarrow>
      let key = GenerateIdempotencyKey lib userID endpoint requestBody;
          requestHash = GenerateRequestHash lib requestBody;
          tbl = idem (shared s);
          goto = (\<lambda>p. (invocations s)[i := p])
      in if i \<ge> length (invocations s) then s
         else case invocations s ! i of
           AtGetItem \<Rightarrow>
             (case get_idempotency_item f key tbl of
                Inl err \<Rightarrow>
                  s\<lparr>invocations := goto (Returned (Inl (FailedToCheckIdempotency err)))\<rparr>
              | Inr None \<Rightarrow> s\<lparr>invocations := goto AtPutItem\<rparr>
              | Inr (Some record) \<Rightarrow>
                  if now > ExpiresAt record then s\<lparr>invocations := goto AtDeleteItem\<rparr>
                  else (case lookup_outcome lib requestHash (Some record) of
                          Some result \<Rightarrow> s\<lparr>invocations := goto (Returned result)\<rparr>
                        | None \<Rightarrow> s\<lparr>invocations := goto AtPutItem\<rparr>))
         | AtDeleteItem \<Rightarrow>
             s\<lparr>shared := (shared s)\<lparr>idem := snd (DeleteIdempotencyRecord f key tbl)\<rparr>,
               invocations := goto AtPutItem\<rparr>
         | AtPutItem \<Rightarrow>
             (case StoreIdempotencyRecord f now
                     (new_pending_record now key userID requestHash) tbl of
                (Some err, tbl') \<Rightarrow>
                  s\<lparr>shared := (shared s)\<lparr>idem := tbl'\<rparr>,
                    invocations := goto (Returned (Inl (FailedToStoreIdempotencyRecord err)))\<rparr>
              | (None, tbl') \<Rightarrow>
                  s\<lparr>shared := (shared s)\<lparr>idem := tbl'\<rparr>, invocations := goto AtHandler\<rparr>)
         | AtHandler \<Rightarrow>
             (case handler (shared s) of
                (outcome, w') \<Rightarrow>
                  s\<lparr>shared := w', invocations := goto (AtUpdateItem outcome),
                    executed := executed s @ [i]\<rparr>)
         | AtUpdateItem outcome \<Rightarrow>
             (case finish_request lib f key outcome tbl of
                (result, tbl') \<Rightarrow>
                  s\<lparr>shared := (shared s)\<lparr>idem := tbl'\<rparr>,
                    invocations := goto (Returned result)\<rparr>)
         | Returned result \<Rightarrow> s)"

fun run ::
  "('v, 'e) idem_lib \<Rightarrow> string \<Rightarrow> string \<Rightarrow> string \<Rightarrow> (world \<Rightarrow> ('e + 'v) \<times> world)
     \<Rightarrow> (nat \<times> time \<times> ddb_faults) list \<Rightarrow> ('v, 'e) system \<Rightarrow> ('v, 'e) system" where
  "run lib userID endpoint requestBody handler [] s = s"
| "run lib userID endpoint requestBody handler (entry # schedule) s =
     run lib userID endpoint requestBody handler schedule
       (step lib userID endpoint requestBody handler entry s)"

text \<open>
  The invariant of a run during which no record under the key is seen expired: \<open>T\<close> is
  a time no step of the run comes after. No invocation is about to delete; the record
  under the key, if there is one, has not expired at \<open>T\<close>; an invocation that is about
  to call the handler is the only one, holds the key in the table, and none has called
  the handler yet; once one has, it is the only one and the key stays in the table; an
  invocation about to record an outcome has called the handler.
\<close>

definition unexpired_inv :: "string \<Rightarrow> time \<Rightarrow> ('v, 'e) system \<Rightarrow> bool" where
  "unexpired_inv key T s \<longleftrightarrow>
     (\<forall>i < length (invocations s). invocations s ! i \<noteq> AtDeleteItem)
     \<and> (\<forall>r. idem (shared s) key = Some r \<longrightarrow> T \<le> ExpiresAt r)
     \<and> (\<forall>i < length (invocations s). invocations s ! i = AtHandler \<longrightarrow>
           idem (shared s) key \<noteq> None \<and> executed s = []
           \<and> (\<forall>j < length (invocations s). invocations s ! j = AtHandler \<longrightarrow> j = i))
     \<and> (executed s \<noteq> [] \<longrightarrow> idem (shared s) key \<noteq> None \<and> length (executed s) = 1)
     \<and> (\<forall>i < length (invocations s). \<forall>outcome.
           invocations s ! i = AtUpdateItem outcome \<longrightarrow> executed s \<noteq> [])"

section \<open>Concrete inputs\<close>

text \<open>The inputs at which the theorems below are evaluated.\<close>

definition demo_time_lib :: time_lib where
  "demo_time_lib = \<lparr>format_date = (\<lambda>t. ''2024-05-01''),
                     format_rfc3339 = (\<lambda>t. ''2024-05-01T00:00:00Z'')\<rparr>"

definition demo_spend_record :: "float64 \<Rightarrow> UserSpendRecord" where
  "demo_spend_record c =
     \<lparr>UserID = ''alice'', Date = ''2024-05-01'', LLMRequests = 3, LLMCost = c,
      DailyLimit = 5.0, CreatedAt = ''2024-05-01T00:00:00Z'',
      UpdatedAt = ''2024-05-01T00:00:00Z'', TTL = 0\<rparr>"

definition demo_spend_table :: "float64 \<Rightarrow> spend_table" where
  "demo_spend_table c = [(''alice'', ''2024-05-01'') \<mapsto> demo_spend_record c]"

definition demo_kms :: kms_service where
  "demo_kms = \<lparr>kms_Encrypt = (\<lambda>h key p ctx. Some (CHR ''#'' # p)),
                kms_Decrypt = (\<lambda>h c ctx. case c of [] \<Rightarrow> None | x # p \<Rightarrow> Some p),
                base64_EncodeToString = (\<lambda>b. b),
                base64_DecodeString = (\<lambda>c. Some c)\<rparr>"

definition demo_client :: KMSClient where
  "demo_client = \<lparr>client = demo_kms, keyID = ''key-1''\<rparr>"

definition demo_lib :: "(string, string) idem_lib" where
  "demo_lib = \<lparr>sha256_hex = (\<lambda>s. s), json_Marshal = (\<lambda>v. Some v),
                json_Unmarshal = (\<lambda>s. Some s), error_text = (\<lambda>e. e)\<rparr>"

definition demo_key :: string where
  "demo_key = ''alice:POST /journal-entries:{}''"

definition demo_idem_record :: "string \<Rightarrow> string \<Rightarrow> time \<Rightarrow> IdempotencyRecord" where
  "demo_idem_record status hash expires =
     \<lparr>Key = demo_key, idem_UserID = ''alice'', RequestHash = hash, Response = ''E1'',
      Status = status, idem_CreatedAt = 0, ExpiresAt = expires, idem_TTL = 0\<rparr>"

definition demo_world :: "IdempotencyRecord \<Rightarrow> world" where
  "demo_world r = \<lparr>idem = [demo_key \<mapsto> r], spend = demo_spend_table 2, kms_calls = []\<rparr>"

definition demo_handler :: "world \<Rightarrow> (string + string) \<times> world" where
  "demo_handler w =
     (Inr ''E2'', w\<lparr>kms_calls := kms_calls w @ [EncryptCall ''key-1'' ''text'' phi_context]\<rparr>)"

definition demo_request :: JournalEntryRequest where
  "demo_request = \<lparr>Content = ''today was hard'', Mood = ''low'', Tags = [''work''],
                    IdempotencyKey = []\<rparr>"

definition demo_spend_world :: "float64 \<Rightarrow> world" where
  "demo_spend_world c = \<lparr>idem = Map.empty, spend = demo_spend_table c, kms_calls = []\<rparr>"

text \<open>
  A schedule of two invocations: each reads, then invocation 0 takes two steps, then
  invocation 1 takes two steps, then each takes one more.
\<close>

definition race_schedule :: "(nat \<times> time \<times> ddb_faults) list" where
  "race_schedule =
     [(0, 20, no_faults), (1, 21, no_faults), (0, 22, no_faults), (0, 23, no_faults),
      (1, 24, no_faults), (1, 25, no_faults), (0, 26, no_faults), (1, 27, no_faults)]"

lemmas demo_defs = demo_lib_def demo_key_def demo_idem_record_def demo_world_def
  demo_handler_def demo_spend_table_def demo_spend_record_def no_faults_def

section \<open>Spend Ledger: admission and monotonicity\<close>



text \<open>
  Claim C8, as stated, fails: \<open>RecordLLMRequest\<close> takes any cost and adds it without a
  check, so a negative cost lowers the accumulated cost. Here 2.00 was spent and a cost of
  -1 is recorded.
\<close>

theorem accumulatedCost_decreases_counterexample:
  "accumulatedCost (snd (RecordLLMRequest demo_time_lib no_faults 0 ''alice'' (- 1)
       (demo_spend_table 2))) ''alice'' ''2024-05-01''
   < accumulatedCost (demo_spend_table 2) ''alice'' ''2024-05-01''"
  by (simp add: RecordLLMRequest_def getUserSpendRecord_def saveUserSpendRecord_def
      accumulatedCost_def no_faults_def demo_spend_table_def demo_spend_record_def
      demo_time_lib_def Let_def)

text \<open>
  Claim C8, amended. \<open>CheckUserSpendLimit\<close> never changes the table, and for every cost
  that is not negative the accumulated cost of the user for today after
  \<open>RecordLLMRequest\<close> is at least the one before, whatever the outcome of the store calls.
\<close>

theorem accumulatedCost_monotone:
  "snd (CheckUserSpendLimit tm fmt f now userID estimatedCost tbl) = tbl
   \<and> (0 \<le> cost \<longrightarrow>
        accumulatedCost tbl userID (format_date tm now)
          \<le> accumulatedCost (snd (RecordLLMRequest tm f' now userID cost tbl))
               userID (format_date tm now))"
proof
  show "snd (CheckUserSpendLimit tm fmt f now userID estimatedCost tbl) = tbl"
    by (simp add: CheckUserSpendLimit_def Let_def split: sum.splits)
next
  show "0 \<le> cost \<longrightarrow>
        accumulatedCost tbl userID (format_date tm now)
          \<le> accumulatedCost (snd (RecordLLMRequest tm f' now userID cost tbl))
               userID (format_date tm now)"
    by (auto simp add: RecordLLMRequest_def getUserSpendRecord_def saveUserSpendRecord_def
        accumulatedCost_def newUserSpendRecord_def Let_def split: option.splits)
qed

theorem accumulatedCost_monotone_witness:
  "snd (CheckUserSpendLimit demo_time_lib (\<lambda>x. []) no_faults 0 ''alice'' 0.5
      (demo_spend_table 2)) = demo_spend_table 2
   \<and> accumulatedCost (demo_spend_table 2) ''alice'' ''2024-05-01'' = 2
   \<and> accumulatedCost (snd (RecordLLMRequest demo_time_lib no_faults 0 ''alice'' 0.5
          (demo_spend_table 2))) ''alice'' ''2024-05-01'' = 2.5"
  using accumulatedCost_monotone [where tm = demo_time_lib and fmt = "\<lambda>x. []"
      and f = no_faults and now = 0 and userID = "''alice''" and estimatedCost = "0.5"
      and tbl = "demo_spend_table 2" and cost = "0.5" and f' = no_faults]
  by (simp add: RecordLLMRequest_def getUserSpendRecord_def saveUserSpendRecord_def
      accumulatedCost_def no_faults_def demo_spend_table_def demo_spend_record_def
      demo_time_lib_def Let_def)

section \<open>Encryption Boundary: round trip\<close>

text \<open>
  Claim C7. On the empty string \<open>EncryptPHI\<close> and \<open>DecryptPHI\<close> return the empty string
  and make no call to the service (the log of calls is unchanged), whatever the service
  is. With a faithful service, whenever \<open>EncryptPHI\<close> returns a ciphertext for a
  plaintext \<open>s\<close>, empty or not, \<open>DecryptPHI\<close> of that ciphertext returns \<open>s\<close>.
\<close>

theorem EncryptPHI_DecryptPHI_roundtrip:
  "(EncryptPHI k [] calls = (Inr [], calls) \<and> DecryptPHI k [] calls = (Inr [], calls))
   \<and> (faithful_kms (client k) \<longrightarrow>
        (\<forall>c calls1. EncryptPHI k s calls = (Inr c, calls1) \<longrightarrow>
             fst (DecryptPHI k c calls2) = Inr s))"
proof -
  have empty: "EncryptPHI k [] calls = (Inr [], calls) \<and> DecryptPHI k [] calls = (Inr [], calls)"
    by (simp add: EncryptPHI_def DecryptPHI_def)
  have round: "fst (DecryptPHI k c calls2) = Inr s"
    if assms: "faithful_kms (client k)" and enc: "EncryptPHI k s calls = (Inr c, calls1)"
    for c calls1
  proof (cases "s = []")
    case True
    with enc have "c = []" by (simp add: EncryptPHI_def)
    with True show ?thesis by (simp add: DecryptPHI_def)
  next
    case False
    with enc obtain blob where
      blob: "kms_Encrypt (client k) calls (keyID k) s phi_context = Some blob"
      and c: "c = base64_EncodeToString (client k) blob"
      by (auto simp: EncryptPHI_def split: option.splits)
    from assms have kms: "\<And>h h' key p ctx c. kms_Encrypt (client k) h key p ctx = Some c
        \<Longrightarrow> c \<noteq> [] \<and> kms_Decrypt (client k) h' c ctx = Some p"
      and b64: "\<And>b. base64_DecodeString (client k) (base64_EncodeToString (client k) b) = Some b"
      and b64_empty: "\<And>b. base64_EncodeToString (client k) b = [] \<Longrightarrow> b = []"
      by (simp_all add: faithful_kms_def)
    from kms [OF blob] have ne: "blob \<noteq> []"
      and dec: "kms_Decrypt (client k) calls2 blob phi_context = Some s"
      by simp_all
    from b64_empty [of blob] ne c have "c \<noteq> []" by auto
    moreover from b64 c have "base64_DecodeString (client k) c = Some blob" by simp
    ultimately show ?thesis using dec by (simp add: DecryptPHI_def)
  qed
  from empty round show ?thesis by blast
qed

theorem EncryptPHI_DecryptPHI_roundtrip_witness:
  "faithful_kms (client demo_client)
   \<and> EncryptPHI demo_client ''secret'' [] =
       (Inr ''#secret'', [EncryptCall ''key-1'' ''secret'' phi_context])
   \<and> fst (DecryptPHI demo_client ''#secret'' [EncryptCall ''key-1'' ''secret'' phi_context])
       = Inr ''secret''
   \<and> EncryptPHI demo_client [] [] = (Inr [], [])
   \<and> DecryptPHI demo_client [] [] = (Inr [], [])"
proof -
  have f: "faithful_kms (client demo_client)"
    by (simp add: demo_client_def faithful_kms_def demo_kms_def)
  have e: "EncryptPHI demo_client ''secret'' [] =
       (Inr ''#secret'', [EncryptCall ''key-1'' ''secret'' phi_context])"
    by (simp add: EncryptPHI_def demo_client_def demo_kms_def)
  from EncryptPHI_DecryptPHI_roundtrip [of demo_client "[]" "''secret''"
      "[EncryptCall ''key-1'' ''secret'' phi_context]"] e f
  show ?thesis by simp
qed

section \<open>Idempotency Coordinator: the outcomes of the lookup\<close>

text \<open>
  In the theorems of this section the handler is any function of the state of the world.
  A result and a final state that do not mention the handler, for every handler, say that
  the call did not run it; a final state equal to the initial one says that the call made
  no call to the encryption service and recorded no cost.
\<close>

lemma lookup_live:
  assumes "tbl key = Some r" and "\<not> get_item_err f" and "\<not> unmarshal_err f"
    and "\<not> now > ExpiresAt r"
  shows "CheckIdempotency f now key tbl = (Inr (Some r), tbl)"
  using assms by (simp add: CheckIdempotency_def get_idempotency_item_def)



text \<open>
  Claim C2. When the table holds a live record for the key of the request, with the hash
  of the submitted body and status completed, and the lookup succeeds, the call returns
  the stored response, deserialized (or the error of the deserialization when the stored
  text cannot be read), and the state of the world is unchanged: the handler is not run.
\<close>

theorem completed_record_returns_cached_response:
  assumes "idem w (GenerateIdempotencyKey lib userID endpoint requestBody) = Some r"
    and "\<not> get_item_err f" and "\<not> unmarshal_err f"
    and "\<not> now > ExpiresAt r"
    and "RequestHash r = GenerateRequestHash lib requestBody"
    and "Status r = ''completed''"
  shows "ProcessIdempotentRequest lib f now userID endpoint requestBody handler w =
           ((case json_Unmarshal lib (Response r) of
               None \<Rightarrow> Inl FailedToUnmarshalCachedResponse
             | Some response \<Rightarrow> Inr response), w)"
  using assms lookup_live [where tbl = "idem w" and f = f and now = now, OF assms(1-4)]
  by (simp add: ProcessIdempotentRequest_def lookup_outcome_def split: option.splits)

theorem completed_record_returns_cached_response_witness:
  "ProcessIdempotentRequest demo_lib no_faults 5 ''alice'' ''POST /journal-entries'' ''{}''
     demo_handler (demo_world (demo_idem_record ''completed'' ''{}'' 10))
   = (Inr ''E1'', demo_world (demo_idem_record ''completed'' ''{}'' 10))"
  using completed_record_returns_cached_response [where lib = demo_lib and f = no_faults
      and now = 5 and userID = "''alice''" and endpoint = "''POST /journal-entries''"
      and requestBody = "''{}''" and handler = demo_handler
      and w = "demo_world (demo_idem_record ''completed'' ''{}'' 10)"
      and r = "demo_idem_record ''completed'' ''{}'' 10"]
  by (simp add: demo_defs GenerateIdempotencyKey_def GenerateRequestHash_def)

text \<open>
  Claim C4. When the table holds a live record for the key of the request whose stored
  hash differs from the hash of the submitted body, the call fails with the key conflict
  error, and the state of the world is unchanged: the handler is not run.
\<close>

theorem conflicting_hash_is_rejected:
  assumes "idem w (GenerateIdempotencyKey lib userID endpoint requestBody) = Some r"
    and "\<not> get_item_err f" and "\<not> unmarshal_err f"
    and "\<not> now > ExpiresAt r"
    and "RequestHash r \<noteq> GenerateRequestHash lib requestBody"
  shows "ProcessIdempotentRequest lib f now userID endpoint requestBody handler w =
           (Inl IdempotencyKeyConflict, w)"
  using assms lookup_live [where tbl = "idem w" and f = f and now = now, OF assms(1-4)]
  by (simp add: ProcessIdempotentRequest_def lookup_outcome_def)

theorem conflicting_hash_is_rejected_witness:
  "ProcessIdempotentRequest demo_lib no_faults 5 ''alice'' ''POST /journal-entries'' ''{}''
     demo_handler (demo_world (demo_idem_record ''completed'' ''other'' 10))
   = (Inl IdempotencyKeyConflict, demo_world (demo_idem_record ''completed'' ''other'' 10))"
  using conflicting_hash_is_rejected [where lib = demo_lib and f = no_faults
      and now = 5 and userID = "''alice''" and endpoint = "''POST /journal-entries''"
      and requestBody = "''{}''" and handler = demo_handler
      and w = "demo_world (demo_idem_record ''completed'' ''other'' 10)"
      and r = "demo_idem_record ''completed'' ''other'' 10"]
  by (simp add: demo_defs GenerateIdempotencyKey_def GenerateRequestHash_def)








section \<open>Request Orchestrator: the degraded path\<close>

text \<open>
  Claim C5. When the admission check refuses the request, \<open>processJournalEntry\<close> returns
  an entry with \<open>encrypted = false\<close> whose content, mood and tags are those of the
  request, and the state of the world is unchanged: no cost is recorded and no call is
  made to the encryption service. The user id of the entry is the literal text
  \<^verbatim>\<open>user_id\<close>, not the id of the caller.
\<close>

theorem denied_request_is_degraded:
  assumes "CheckUserSpendLimit tm fmt fc now userID
             (EstimateLLMCost (int (length (Content req))) 100
                ''anthropic.claude-3-sonnet-20240229-v1:0'') (spend w) = (Inr costCheck, sp)"
    and "\<not> Allowed costCheck"
  shows "\<exists>resp. processJournalEntry tm fmt fc fr now userID req kmsService w = (Inr resp, w)
           \<and> \<not> Encrypted resp \<and> resp_Content resp = Content req
           \<and> resp_Mood resp = Mood req \<and> resp_Tags resp = Tags req
           \<and> resp_UserID resp = ''user_id''"
proof -
  have "snd (CheckUserSpendLimit tm fmt fc now userID
             (EstimateLLMCost (int (length (Content req))) 100
                ''anthropic.claude-3-sonnet-20240229-v1:0'') (spend w)) = spend w"
    by (simp add: CheckUserSpendLimit_def Let_def split: sum.splits)
  with assms(1) have "sp = spend w" by simp
  with assms show ?thesis
    by (simp add: processJournalEntry_def handleCostLimitExceeded_def)
qed

theorem denied_request_is_degraded_witness:
  "\<exists>resp. processJournalEntry demo_time_lib (\<lambda>x. []) no_faults no_faults 0 ''alice''
            demo_request demo_client (demo_spend_world 5) = (Inr resp, demo_spend_world 5)
         \<and> \<not> Encrypted resp \<and> resp_Content resp = ''today was hard''
         \<and> resp_UserID resp = ''user_id'' \<and> resp_UserID resp \<noteq> ''alice''"
proof -
  have "\<exists>costCheck. CheckUserSpendLimit demo_time_lib (\<lambda>x. []) no_faults 0 ''alice''
      (EstimateLLMCost (int (length (Content demo_request))) 100
         ''anthropic.claude-3-sonnet-20240229-v1:0'') (spend (demo_spend_world 5))
      = (Inr costCheck, spend (demo_spend_world 5)) \<and> \<not> Allowed costCheck"
    by (simp add: CheckUserSpendLimit_def getUserSpendRecord_def EstimateLLMCost_def
        costs_def costs_at_def
        demo_request_def demo_spend_world_def demo_time_lib_def demo_defs Let_def)
  then obtain costCheck where
    "CheckUserSpendLimit demo_time_lib (\<lambda>x. []) no_faults 0 ''alice''
      (EstimateLLMCost (int (length (Content demo_request))) 100
         ''anthropic.claude-3-sonnet-20240229-v1:0'') (spend (demo_spend_world 5))
      = (Inr costCheck, spend (demo_spend_world 5))" and "\<not> Allowed costCheck"
    by blast
  from denied_request_is_degraded [OF this, of no_faults demo_client]
  show ?thesis by (auto simp: demo_request_def)
qed

section \<open>Concurrent invocations: the machine and the sequential function\<close>

text \<open>
  An invocation that runs alone, its steps taken at one instant and with one answer of the
  store, ends where \<open>ProcessIdempotentRequest\<close> ends: with the same result and the same
  state of the world. Five steps are the longest path (read, delete, insert, handler,
  update); a returned invocation takes no further step.
\<close>

lemma step_Returned:
  "invocations s = [Returned r] \<Longrightarrow>
   step lib userID endpoint requestBody handler (0, now, f) s = s"
  by (simp add: step_def Let_def)

lemma run_from_AtPutItem:
  fixes lib :: "('v, 'e) idem_lib"
  shows "\<exists>ex'. run lib userID endpoint requestBody handler
           [(0, now, f), (0, now, f), (0, now, f)]
           \<lparr>shared = w, invocations = [AtPutItem], executed = ex\<rparr>
         = \<lparr>shared = snd (execute_new_request lib f now
                 (GenerateIdempotencyKey lib userID endpoint requestBody) userID
                 (GenerateRequestHash lib requestBody) handler w),
            invocations = [Returned (fst (execute_new_request lib f now
                 (GenerateIdempotencyKey lib userID endpoint requestBody) userID
                 (GenerateRequestHash lib requestBody) handler w))],
            executed = ex'\<rparr>"
proof (cases "StoreIdempotencyRecord f now
                (new_pending_record now (GenerateIdempotencyKey lib userID endpoint requestBody)
                   userID (GenerateRequestHash lib requestBody)) (idem w)")
  case (Pair res tbl)
  show ?thesis
  proof (cases res)
    case (Some err)
    with Pair show ?thesis
      by (simp add: step_def execute_new_request_def Let_def)
  next
    case None
    obtain outcome w' where h: "handler (w\<lparr>idem := tbl\<rparr>) = (outcome, w')"
      by (cases "handler (w\<lparr>idem := tbl\<rparr>)")
    obtain result tbl' where fin: "finish_request lib f
        (GenerateIdempotencyKey lib userID endpoint requestBody) outcome (idem w') = (result, tbl')"
      by (cases "finish_request lib f
        (GenerateIdempotencyKey lib userID endpoint requestBody) outcome (idem w')")
    from Pair None h fin show ?thesis
      by (simp add: step_def execute_new_request_def Let_def)
  qed
qed


lemma run_append:
  "run lib userID endpoint requestBody handler (xs @ ys) s =
   run lib userID endpoint requestBody handler ys
     (run lib userID endpoint requestBody handler xs s)"
  by (induction xs arbitrary: s) simp_all

lemma run_after_return:
  "invocations s = [Returned r] \<Longrightarrow>
   run lib userID endpoint requestBody handler (replicate n (0, now, f)) s = s"
  by (induction n) (simp_all add: step_Returned)

lemma run_from_AtPutItem_longer:
  fixes lib :: "('v, 'e) idem_lib"
  shows "\<exists>ex'. run lib userID endpoint requestBody handler (replicate (3 + n) (0, now, f))
           \<lparr>shared = w, invocations = [AtPutItem], executed = ex\<rparr>
         = \<lparr>shared = snd (execute_new_request lib f now
                 (GenerateIdempotencyKey lib userID endpoint requestBody) userID
                 (GenerateRequestHash lib requestBody) handler w),
            invocations = [Returned (fst (execute_new_request lib f now
                 (GenerateIdempotencyKey lib userID endpoint requestBody) userID
                 (GenerateRequestHash lib requestBody) handler w))],
            executed = ex'\<rparr>"
proof -
  have split: "replicate (3 + n) (0, now, f) =
      [(0, now, f), (0, now, f), (0, now, f)] @ replicate n (0, now, f)"
    by (simp add: numeral_3_eq_3)
  from run_from_AtPutItem [of lib userID endpoint requestBody handler now f w ex]
  obtain ex' where "run lib userID endpoint requestBody handler
           [(0, now, f), (0, now, f), (0, now, f)]
           \<lparr>shared = w, invocations = [AtPutItem], executed = ex\<rparr>
         = \<lparr>shared = snd (execute_new_request lib f now
                 (GenerateIdempotencyKey lib userID endpoint requestBody) userID
                 (GenerateRequestHash lib requestBody) handler w),
            invocations = [Returned (fst (execute_new_request lib f now
                 (GenerateIdempotencyKey lib userID endpoint requestBody) userID
                 (GenerateRequestHash lib requestBody) handler w))],
            executed = ex'\<rparr>"
    by blast
  then show ?thesis
    unfolding split run_append by (simp add: run_after_return)
qed

lemma single_invocation_agrees_with_ProcessIdempotentRequest:
  fixes lib :: "('v, 'e) idem_lib"
  shows "\<exists>ex'. run lib userID endpoint requestBody handler (replicate 5 (0, now, f))
                 (initial_system w 1)
         = \<lparr>shared = snd (ProcessIdempotentRequest lib f now userID endpoint requestBody
                            handler w),
            invocations = [Returned (fst (ProcessIdempotentRequest lib f now userID endpoint
                                            requestBody handler w))],
            executed = ex'\<rparr>"
proof -
  let ?key = "GenerateIdempotencyKey lib userID endpoint requestBody"
  let ?hash = "GenerateRequestHash lib requestBody"
  let ?e = "(0::nat, now, f)"
  have five: "replicate 5 ?e = ?e # replicate (3 + 1) ?e"
    and five': "replicate 5 ?e = ?e # ?e # replicate (3 + 0) ?e"
    by (simp_all add: eval_nat_numeral)
  show ?thesis
  proof (cases "get_idempotency_item f ?key (idem w)")
    case (Inl err)
    then show ?thesis
      unfolding five
      by (simp add: initial_system_def step_def ProcessIdempotentRequest_def
          CheckIdempotency_def Let_def run_after_return)
  next
    case (Inr found)
    show ?thesis
    proof (cases found)
      case None
      with Inr have pir: "ProcessIdempotentRequest lib f now userID endpoint requestBody handler w
          = execute_new_request lib f now ?key userID ?hash handler w"
        by (simp add: ProcessIdempotentRequest_def CheckIdempotency_def lookup_outcome_def Let_def)
      from Inr None have "step lib userID endpoint requestBody handler ?e (initial_system w 1)
          = \<lparr>shared = w, invocations = [AtPutItem], executed = []\<rparr>"
        by (simp add: initial_system_def step_def Let_def)
      then show ?thesis
        unfolding five pir using run_from_AtPutItem_longer [of lib userID endpoint requestBody
            handler 1 now f w "[]"]
        by simp
    next
      case (Some r)
      show ?thesis
      proof (cases "now > ExpiresAt r")
        case True
        with Inr Some have pir:
          "ProcessIdempotentRequest lib f now userID endpoint requestBody handler w
             = execute_new_request lib f now ?key userID ?hash handler
                 (w\<lparr>idem := snd (DeleteIdempotencyRecord f ?key (idem w))\<rparr>)"
          by (simp add: ProcessIdempotentRequest_def CheckIdempotency_def lookup_outcome_def Let_def)
        from Inr Some True
        have "step lib userID endpoint requestBody handler ?e
                (step lib userID endpoint requestBody handler ?e (initial_system w 1))
          = \<lparr>shared = w\<lparr>idem := snd (DeleteIdempotencyRecord f ?key (idem w))\<rparr>,
             invocations = [AtPutItem], executed = []\<rparr>"
          by (simp add: initial_system_def step_def Let_def)
        then show ?thesis
          unfolding five' pir using run_from_AtPutItem_longer [of lib userID endpoint
              requestBody handler 0 now f
              "w\<lparr>idem := snd (DeleteIdempotencyRecord f ?key (idem w))\<rparr>" "[]"]
          by simp
      next
        case False
        show ?thesis
        proof (cases "lookup_outcome lib ?hash (Some r)")
          case None
          with Inr Some False
          have pir: "ProcessIdempotentRequest lib f now userID endpoint requestBody handler w
              = execute_new_request lib f now ?key userID ?hash handler w"
            by (simp add: ProcessIdempotentRequest_def CheckIdempotency_def Let_def)
          from Inr Some False None
          have "step lib userID endpoint requestBody handler ?e (initial_system w 1)
              = \<lparr>shared = w, invocations = [AtPutItem], executed = []\<rparr>"
            by (simp add: initial_system_def step_def Let_def)
          then show ?thesis
            unfolding five pir using run_from_AtPutItem_longer [of lib userID endpoint
                requestBody handler 1 now f w "[]"]
            by simp
        next
          case (Some result)
          with Inr \<open>found = Some r\<close> False show ?thesis
            unfolding five
            by (simp add: initial_system_def step_def ProcessIdempotentRequest_def
                CheckIdempotency_def Let_def run_after_return)
        qed
      qed
    qed
  qed
qed

section \<open>Concurrent invocations: at most one execution while nothing expires\<close>

lemma unexpired_inv_goto:
  assumes inv: "unexpired_inv key T s"
    and i: "i < length (invocations s)"
    and p: "p \<noteq> AtDeleteItem" "p \<noteq> AtHandler" "\<And>outcome. p \<noteq> AtUpdateItem outcome"
  shows "unexpired_inv key T (s\<lparr>invocations := (invocations s)[i := p]\<rparr>)"
  using assms unfolding unexpired_inv_def
  by (auto simp: nth_list_update)

lemma store_result:
  "StoreIdempotencyRecord f now record tbl = (res, tbl') \<Longrightarrow>
   (res \<noteq> None \<and> tbl' = tbl)
   \<or> (res = None \<and> tbl (Key record) = None
       \<and> tbl' = tbl(Key record \<mapsto> record\<lparr>idem_TTL := time_Unix (now + 24 * hour)\<rparr>))"
  by (auto simp: StoreIdempotencyRecord_def Let_def split: if_splits)

lemma update_keeps_expiry:
  assumes "tbl key = Some r"
  shows "\<exists>r'. snd (UpdateIdempotencyRecord f key response status tbl) key = Some r'
             \<and> ExpiresAt r' = ExpiresAt r"
  using assms by (simp add: UpdateIdempotencyRecord_def)

lemma finish_keeps_expiry:
  assumes "tbl key = Some r"
  shows "\<exists>r'. snd (finish_request lib f key outcome tbl) key = Some r'
             \<and> ExpiresAt r' = ExpiresAt r"
  using update_keeps_expiry [where tbl = tbl and key = key, OF assms]
  by (simp add: finish_request_def split: sum.splits option.splits)

lemma unexpired_inv_step:
  fixes lib :: "('v, 'e) idem_lib" and userID endpoint requestBody :: string
  defines "key \<equiv> GenerateIdempotencyKey lib userID endpoint requestBody"
  assumes inv: "unexpired_inv key T s"
    and early: "now \<le> T" and window: "T \<le> now + 24 * hour"
    and handler: "\<And>w. idem (snd (handler w)) key = idem w key"
  shows "unexpired_inv key T (step lib userID endpoint requestBody handler (i, now, f) s)"
proof (cases "i < length (invocations s)")
  case False
  with inv show ?thesis by (simp add: step_def Let_def)
next
  case i: True
  let ?hash = "GenerateRequestHash lib requestBody"
  show ?thesis
  proof (cases "invocations s ! i")
    case AtGetItem
    have live: "\<not> now > ExpiresAt r" if "idem (shared s) key = Some r" for r
      using inv that early unfolding unexpired_inv_def by fastforce
    show ?thesis
      using AtGetItem i live
      by (auto simp: step_def Let_def key_def [symmetric] get_idempotency_item_def
          intro!: unexpired_inv_goto [OF inv] split: option.splits if_splits)
  next
    case AtDeleteItem
    with inv i show ?thesis unfolding unexpired_inv_def by blast
  next
    case AtPutItem
    obtain res tbl' where st: "StoreIdempotencyRecord f now
        (new_pending_record now key userID ?hash) (idem (shared s)) = (res, tbl')"
      by (cases "StoreIdempotencyRecord f now
        (new_pending_record now key userID ?hash) (idem (shared s))")
    from store_result [OF st] show ?thesis
    proof
      assume "res \<noteq> None \<and> tbl' = idem (shared s)"
      with AtPutItem i st show ?thesis
        by (auto simp: step_def Let_def key_def [symmetric]
            intro!: unexpired_inv_goto [OF inv])
    next
      assume ok: "res = None \<and> idem (shared s) (Key (new_pending_record now key userID ?hash)) = None
        \<and> tbl' = (idem (shared s))(Key (new_pending_record now key userID ?hash) \<mapsto>
              (new_pending_record now key userID ?hash)\<lparr>idem_TTL := time_Unix (now + 24 * hour)\<rparr>)"
      then have absent: "idem (shared s) key = None"
        by (simp add: new_pending_record_def)
      from ok AtPutItem i st have step_eq:
        "step lib userID endpoint requestBody handler (i, now, f) s =
           s\<lparr>shared := (shared s)\<lparr>idem := tbl'\<rparr>, invocations := (invocations s)[i := AtHandler]\<rparr>"
        by (simp add: step_def Let_def key_def [symmetric])
      from ok have tbl': "tbl' key = Some ((new_pending_record now key userID ?hash)
                                \<lparr>idem_TTL := time_Unix (now + 24 * hour)\<rparr>)"
        by (simp add: new_pending_record_def)
      from inv absent have none: "\<forall>j < length (invocations s). invocations s ! j \<noteq> AtHandler"
        and ex: "executed s = []"
        and noupd: "\<forall>j < length (invocations s). \<forall>outcome. invocations s ! j \<noteq> AtUpdateItem outcome"
        and nodel: "\<forall>j < length (invocations s). invocations s ! j \<noteq> AtDeleteItem"
        unfolding unexpired_inv_def by auto
      show ?thesis
        unfolding step_eq unexpired_inv_def
        using none ex noupd nodel tbl' window i
        by (auto simp: nth_list_update new_pending_record_def)
    qed
  next
    case AtHandler
    obtain outcome w' where h: "handler (shared s) = (outcome, w')"
      by (cases "handler (shared s)")
    with handler [of "shared s"] have same: "idem w' key = idem (shared s) key" by simp
    from AtHandler i h have step_eq:
      "step lib userID endpoint requestBody handler (i, now, f) s =
         s\<lparr>shared := w', invocations := (invocations s)[i := AtUpdateItem outcome],
           executed := executed s @ [i]\<rparr>"
      by (simp add: step_def Let_def)
    from inv AtHandler i have present: "idem (shared s) key \<noteq> None" and ex: "executed s = []"
      and only: "\<forall>j < length (invocations s). invocations s ! j = AtHandler \<longrightarrow> j = i"
      unfolding unexpired_inv_def by auto
    from inv have nodel: "\<forall>j < length (invocations s). invocations s ! j \<noteq> AtDeleteItem"
      and live: "\<forall>r. idem (shared s) key = Some r \<longrightarrow> T \<le> ExpiresAt r"
      unfolding unexpired_inv_def by auto
    show ?thesis
      unfolding step_eq unexpired_inv_def
      using present ex only nodel live same i
      by (auto simp: nth_list_update)
  next
    case (AtUpdateItem outcome)
    obtain result tbl' where fin: "finish_request lib f key outcome (idem (shared s)) = (result, tbl')"
      by (cases "finish_request lib f key outcome (idem (shared s))")
    from AtUpdateItem i fin have step_eq:
      "step lib userID endpoint requestBody handler (i, now, f) s =
         s\<lparr>shared := (shared s)\<lparr>idem := tbl'\<rparr>,
           invocations := (invocations s)[i := Returned result]\<rparr>"
      by (simp add: step_def Let_def key_def [symmetric])
    from inv AtUpdateItem i have ex: "executed s \<noteq> []"
      unfolding unexpired_inv_def by blast
    with inv obtain r where r: "idem (shared s) key = Some r" and one: "length (executed s) = 1"
      and live: "T \<le> ExpiresAt r"
      unfolding unexpired_inv_def by auto
    from finish_keeps_expiry [where tbl = "idem (shared s)" and key = key, OF r, of lib f outcome] fin
    obtain r' where r': "tbl' key = Some r'" and "ExpiresAt r' = ExpiresAt r" by auto
    with live have live': "T \<le> ExpiresAt r'" by simp
    from inv have nodel: "\<forall>j < length (invocations s). invocations s ! j \<noteq> AtDeleteItem"
      unfolding unexpired_inv_def by auto
    from inv ex have nohandler: "\<forall>j < length (invocations s). invocations s ! j \<noteq> AtHandler"
      unfolding unexpired_inv_def by auto
    show ?thesis
      unfolding step_eq unexpired_inv_def
      using ex one r' live' nodel nohandler i
      by (auto simp: nth_list_update)
  next
    case (Returned result)
    with inv i show ?thesis by (simp add: step_def Let_def)
  qed
qed

lemma unexpired_inv_run:
  fixes lib :: "('v, 'e) idem_lib" and userID endpoint requestBody :: string
  defines "key \<equiv> GenerateIdempotencyKey lib userID endpoint requestBody"
  assumes inv: "unexpired_inv key T s"
    and window: "\<forall>(i, now, f) \<in> set schedule. now \<le> T \<and> T \<le> now + 24 * hour"
    and handler: "\<And>w. idem (snd (handler w)) key = idem w key"
  shows "unexpired_inv key T (run lib userID endpoint requestBody handler schedule s)"
  using inv window
proof (induction schedule arbitrary: s)
  case Nil
  then show ?case by simp
next
  case (Cons entry schedule)
  obtain i now f where entry: "entry = (i, now, f)" by (cases entry)
  with Cons.prems have "now \<le> T" and "T \<le> now + 24 * hour" by simp_all
  with Cons.prems(1) handler
  have "unexpired_inv key T (step lib userID endpoint requestBody handler (i, now, f) s)"
    unfolding key_def by (intro unexpired_inv_step) simp_all
  with Cons.IH [of "step lib userID endpoint requestBody handler entry s"] Cons.prems(2) entry
  show ?case by simp
qed

text \<open>
  Where the property of claim C1 does hold: when the handler leaves the record of the key
  alone, the steps of the run all fall within 24 hours before some time \<open>T\<close>, and the
  record the table holds for the key at the start, if any, has not expired at \<open>T\<close>, then
  however the \<open>n\<close> invocations are interleaved and whatever the store answers, at most
  one of them runs the handler.
\<close>

theorem at_most_one_execution_while_unexpired:
  fixes lib :: "('v, 'e) idem_lib" and userID endpoint requestBody :: string
  defines "key \<equiv> GenerateIdempotencyKey lib userID endpoint requestBody"
  assumes handler: "\<And>w. idem (snd (handler w)) key = idem w key"
    and window: "\<forall>(i, now, f) \<in> set schedule. now \<le> T \<and> T \<le> now + 24 * hour"
    and live: "\<forall>r. idem w key = Some r \<longrightarrow> T \<le> ExpiresAt r"
  shows "length (executed (run lib userID endpoint requestBody handler schedule
                             (initial_system w n))) \<le> 1"
proof -
  have "unexpired_inv key T (initial_system w n :: ('v, 'e) system)"
    using live by (simp add: unexpired_inv_def initial_system_def)
  then have "unexpired_inv key T (run lib userID endpoint requestBody handler schedule
                                     (initial_system w n))"
    using window handler unfolding key_def by (intro unexpired_inv_run) simp_all
  then show ?thesis
    unfolding unexpired_inv_def
    by (cases "executed (run lib userID endpoint requestBody handler schedule
                           (initial_system w n))") simp_all
qed

text \<open>
  Two invocations on a key the table does not hold, interleaved step by step: the second
  loses the conditional insert and only the first runs the handler.
\<close>

theorem at_most_one_execution_while_unexpired_witness:
  "executed (run demo_lib ''alice'' ''POST /journal-entries'' ''{}'' demo_handler
               race_schedule (initial_system (demo_spend_world 2) 2)) = [0]
   \<and> length (executed (run demo_lib ''alice'' ''POST /journal-entries'' ''{}'' demo_handler
               race_schedule (initial_system (demo_spend_world 2) 2))) \<le> 1"
proof -
  have h: "\<And>w. idem (snd (demo_handler w))
               (GenerateIdempotencyKey demo_lib ''alice'' ''POST /journal-entries'' ''{}'')
             = idem w (GenerateIdempotencyKey demo_lib ''alice'' ''POST /journal-entries'' ''{}'')"
    by (simp add: demo_handler_def)
  have w: "\<forall>(i, now, f) \<in> set race_schedule. now \<le> 27 \<and> 27 \<le> now + 24 * hour"
    by (simp add: race_schedule_def hour_def)
  have l: "\<forall>r. idem (demo_spend_world 2)
               (GenerateIdempotencyKey demo_lib ''alice'' ''POST /journal-entries'' ''{}'')
             = Some r \<longrightarrow> 27 \<le> ExpiresAt r"
    by (simp add: demo_spend_world_def)
  have e: "executed (run demo_lib ''alice'' ''POST /journal-entries'' ''{}'' demo_handler
               race_schedule (initial_system (demo_spend_world 2) 2)) = [0]"
    by (simp add: race_schedule_def initial_system_def step_def demo_defs demo_spend_world_def
        GenerateIdempotencyKey_def GenerateRequestHash_def get_idempotency_item_def
        StoreIdempotencyRecord_def new_pending_record_def lookup_outcome_def
        finish_request_def UpdateIdempotencyRecord_def numeral_2_eq_2 Let_def)
  from at_most_one_execution_while_unexpired [of demo_handler demo_lib "''alice''"
      "''POST /journal-entries''" "''{}''" race_schedule 27 "demo_spend_world 2" 2, OF h w l] e
  show ?thesis by simp
qed

section \<open>Concurrent invocations: the race on an expired record\<close>

text \<open>
  Claim C1 fails on the code. The table holds an expired record under the key, which the
  store has not yet removed. Invocations 0 and 1 both read it; 0 deletes it and inserts
  its pending record; 1, which still holds the expired record it read, deletes the
  pending record of 0 and inserts its own. Both conditional inserts succeed, and both
  invocations run the handler.
\<close>

theorem expired_record_lets_two_invocations_execute:
  "executed (run demo_lib ''alice'' ''POST /journal-entries'' ''{}'' demo_handler
     race_schedule (initial_system (demo_world (demo_idem_record ''completed'' ''{}'' 10)) 2))
   = [0, 1]"
  by (simp add: race_schedule_def initial_system_def step_def demo_defs
      GenerateIdempotencyKey_def GenerateRequestHash_def get_idempotency_item_def
      DeleteIdempotencyRecord_def StoreIdempotencyRecord_def new_pending_record_def
      lookup_outcome_def numeral_2_eq_2 Let_def)

end
